theory Spec2Isabelle
  imports Main "HOL-Library.Word"
begin

section \<open>The public entry points of the JSON syntax package\<close>

text \<open>
  This theory embeds \<^verbatim>\<open>json/public.go\<close>: \<^verbatim>\<open>Parse\<close>, \<^verbatim>\<open>ParseWithStartPos\<close>,
  \<^verbatim>\<open>ParseExpression\<close>, \<^verbatim>\<open>ParseExpressionWithStartPos\<close> and \<^verbatim>\<open>ParseFile\<close>.
  The scanner, the parser and the syntax tree live in other files of the package; what
  the entry points use of them is either modelled from the specification (the data) or
  taken as a parameter (the functions).
\<close>

subsection \<open>Source positions and diagnostics\<close>

type_synonym byte = "8 word"

text \<open>
  Modelled from the spec: \<^verbatim>\<open>hcl.Pos\<close>, declared outside \<^verbatim>\<open>public.go\<close>. The fields are
  the ones the source initialises: byte offset, line and column.
\<close>

record Pos =
  Byte :: int
  Line :: int
  Column :: int

text \<open>
  Modelled from the spec: \<^verbatim>\<open>hcl.Range\<close>, a pair of positions and a source name.
\<close>

record Range =
  Filename :: string
  Start :: Pos
  End :: Pos

text \<open>
  Modelled from the spec: the severity of a diagnostic is error or warning.
\<close>

datatype DiagnosticSeverity = DiagError | DiagWarning

text \<open>
  Modelled from the spec: \<^verbatim>\<open>hcl.Diagnostic\<close>: severity, summary, detail, optional
  subject range, optional context range. A field the source leaves out of a composite
  literal is Go's zero value: the empty string, the nil pointer (\<open>None\<close>).
\<close>

record Diagnostic =
  Severity :: DiagnosticSeverity
  Summary :: string
  Detail :: string
  Subject :: "Range option"
  Context :: "Range option"

type_synonym Diagnostics = "Diagnostic list"

subsection \<open>The syntax tree\<close>

text \<open>
  Modelled from the spec: the node type, declared outside \<^verbatim>\<open>public.go\<close>. It is a closed
  set of variants: object (ordered attributes), array (ordered nodes), string (decoded
  text), number (a decimal, here mantissa and exponent), bool and null. Every node
  carries its source range; objects and arrays carry the range of the opening delimiter
  too. The constructor \<open>objectVal\<close> takes \<^verbatim>\<open>Attrs\<close>, \<^verbatim>\<open>SrcRange\<close> and \<^verbatim>\<open>OpenRange\<close>, the
  fields \<^verbatim>\<open>ParseWithStartPos\<close> sets in its placeholder. An attribute is its key (text
  and range), its value and the combined name range.
\<close>

datatype node =
    objectVal "objectAttr list" Range Range
  | arrayVal "node list" Range Range
  | stringVal string Range
  | numberVal int int Range
  | booleanVal bool Range
  | nullVal Range
and objectAttr =
    objectAttr string Range node Range

text \<open>
  The type switch of \<^verbatim>\<open>ParseWithStartPos\<close>:
  \<^verbatim>\<open>case *objectVal, *arrayVal\<close> against \<^verbatim>\<open>default\<close>.
\<close>

fun isObjectOrArray :: "node \<Rightarrow> bool" where
  "isObjectOrArray (objectVal _ _ _) = True"
| "isObjectOrArray (arrayVal _ _ _) = True"
| "isObjectOrArray _ = False"

text \<open>
  The views \<^verbatim>\<open>body{val: rootNode}\<close>, \<^verbatim>\<open>navigation{rootNode}\<close> and
  \<^verbatim>\<open>expression{src: node}\<close>: each holds one node.
\<close>

datatype body = body (body_val: node)

datatype navigation = navigation (navigation_root: node)

datatype expression = expression (expression_src: node)

text \<open>
  Modelled from the spec: \<^verbatim>\<open>hcl.File\<close> holds the body, the raw bytes and the
  navigation index.
\<close>

record File =
  Body :: body
  Bytes :: "byte list"
  Nav :: navigation

text \<open>
  The functions of the package that \<^verbatim>\<open>public.go\<close> calls and that are defined in other
  files: the two parser entries and the method \<^verbatim>\<open>StartRange\<close> of a node. They are
  parameters of the model. A parser entry returns a node and the diagnostics of scanning
  and parsing; it returns a node on every input, as the specification says of the
  parser (a best-effort root together with the diagnostics, never an aborting failure).
\<close>

record json_pkg =
  parseFileContent :: "byte list \<Rightarrow> string \<Rightarrow> Pos \<Rightarrow> node \<times> Diagnostics"
  parseExpression :: "byte list \<Rightarrow> string \<Rightarrow> Pos \<Rightarrow> node \<times> Diagnostics"
  StartRange :: "node \<Rightarrow> Range"

subsection \<open>Parsing a buffer\<close>

text \<open>
  \<^verbatim>\<open>ParseWithStartPos\<close>. A \<^verbatim>\<open>*hcl.File\<close> is a pointer, so the result is an option:
  \<open>None\<close> is the nil file. \<^verbatim>\<open>diags.Append\<close> adds the diagnostic at the end.
\<close>

definition ParseWithStartPos ::
  "json_pkg \<Rightarrow> byte list \<Rightarrow> string \<Rightarrow> Pos \<Rightarrow> File option \<times> Diagnostics" where
  "ParseWithStartPos pkg src filename start =
    (case parseFileContent pkg src filename start of
      (rootNode, diags) \<Rightarrow>
        (let (rootNode, diags) =
          (if isObjectOrArray rootNode then (rootNode, diags)
           else
            (let diags = diags @ [\<lparr>
                   Severity = DiagError,
                   Summary = ''Root value must be object'',
                   Detail = ''The root value in a JSON-based configuration must be either a JSON object or a JSON array of objects.'',
                   Subject = Some (StartRange pkg rootNode),
                   Context = None\<rparr>];
                 fakePos = \<lparr>Byte = 0, Line = 1, Column = 1\<rparr>;
                 fakeRange = \<lparr>Filename = filename, Start = fakePos, End = fakePos\<rparr>
             in (objectVal [] fakeRange fakeRange, diags)));
          file = \<lparr>Body = body rootNode, Bytes = src, Nav = navigation rootNode\<rparr>
         in (Some file, diags)))"

definition Parse :: "json_pkg \<Rightarrow> byte list \<Rightarrow> string \<Rightarrow> File option \<times> Diagnostics" where
  "Parse pkg src filename =
    ParseWithStartPos pkg src filename \<lparr>Byte = 0, Line = 1, Column = 1\<rparr>"

subsection \<open>Parsing a standalone expression\<close>

definition ParseExpressionWithStartPos ::
  "json_pkg \<Rightarrow> byte list \<Rightarrow> string \<Rightarrow> Pos \<Rightarrow> expression \<times> Diagnostics" where
  "ParseExpressionWithStartPos pkg src filename start =
    (case parseExpression pkg src filename start of
      (node, diags) \<Rightarrow> (expression node, diags))"

definition ParseExpression ::
  "json_pkg \<Rightarrow> byte list \<Rightarrow> string \<Rightarrow> expression \<times> Diagnostics" where
  "ParseExpression pkg src filename =
    ParseExpressionWithStartPos pkg src filename \<lparr>Byte = 0, Line = 1, Column = 1\<rparr>"

subsection \<open>Parsing a file\<close>

text \<open>
  The operating system as \<^verbatim>\<open>ParseFile\<close> sees it. \<^verbatim>\<open>os.Open\<close> returns an error or an
  open file (a handle); \<^verbatim>\<open>io.ReadAll\<close> returns the bytes read and possibly an error;
  \<^verbatim>\<open>Close\<close> returns possibly an error. \<^verbatim>\<open>ParseFile\<close> calls each of them at most once,
  so one run is described by what each call answers. \<open>fmt_q\<close> is the verb \<^verbatim>\<open>%q\<close> of
  \<^verbatim>\<open>fmt.Sprintf\<close>, the quoted form of a string.
\<close>

type_synonym go_error = string

type_synonym os_File = nat

record os_env =
  os_Open :: "string \<Rightarrow> go_error + os_File"
  io_ReadAll :: "os_File \<Rightarrow> byte list \<times> go_error option"
  Close :: "os_File \<Rightarrow> go_error option"
  fmt_q :: "string \<Rightarrow> string"

text \<open>
  The deferred function of \<^verbatim>\<open>ParseFile\<close>. It runs after the return statement has set
  the named results \<^verbatim>\<open>rf\<close> and \<^verbatim>\<open>diags\<close>, closes the file and, when that fails, appends
  a warning to \<^verbatim>\<open>diags\<close>.
\<close>

definition deferredClose ::
  "os_env \<Rightarrow> os_File \<Rightarrow> string \<Rightarrow> File option \<times> Diagnostics \<Rightarrow> File option \<times> Diagnostics" where
  "deferredClose env f filename res =
    (case res of
      (rf, diags) \<Rightarrow>
        (case Close env f of
          Some err \<Rightarrow>
            (rf, diags @ [\<lparr>
               Severity = DiagWarning,
               Summary = ''Failed to close file'',
               Detail = ''The file '' @ fmt_q env filename @ '' was opened, but an error occured while closing it.'',
               Subject = None,
               Context = None\<rparr>])
        | None \<Rightarrow> (rf, diags)))"

text \<open>
  \<^verbatim>\<open>ParseFile\<close>. When opening fails the function returns before the \<^verbatim>\<open>defer\<close>
  statement, with \<^verbatim>\<open>rf\<close> nil and the diagnostic appended to the nil \<^verbatim>\<open>diags\<close>. Every
  later return runs the deferred function.
\<close>

definition ParseFile :: "os_env \<Rightarrow> json_pkg \<Rightarrow> string \<Rightarrow> File option \<times> Diagnostics" where
  "ParseFile env pkg filename =
    (case os_Open env filename of
      Inl err \<Rightarrow>
        (None, [] @ [\<lparr>
           Severity = DiagError,
           Summary = ''Failed to open file'',
           Detail = ''The file '' @ fmt_q env filename @ '' could not be opened.'',
           Subject = None,
           Context = None\<rparr>])
    | Inr f \<Rightarrow>
        deferredClose env f filename
          (case io_ReadAll env f of
            (src, Some err) \<Rightarrow>
              (None, [\<lparr>
                 Severity = DiagError,
                 Summary = ''Failed to read file'',
                 Detail = ''The file '' @ fmt_q env filename @ '' was opened, but an error occured while reading it.'',
                 Subject = None,
                 Context = None\<rparr>])
          | (src, None) \<Rightarrow> Parse pkg src filename))"

subsection \<open>Sample collaborators\<close>

text \<open>
  Stand-ins for the parameters, to run the entry points on concrete inputs. The sample
  \<^verbatim>\<open>StartRange\<close> answers the opening range of an object or an array and the source
  range of any other node; the sample package answers one fixed node and one fixed list
  of diagnostics from both parser entries; the sample operating system answers fixed
  results from \<^verbatim>\<open>os.Open\<close>, \<^verbatim>\<open>io.ReadAll\<close> and \<^verbatim>\<open>Close\<close> and quotes a string by
  putting it between double quotes.
\<close>

fun sampleStartRange :: "node \<Rightarrow> Range" where
  "sampleStartRange (objectVal _ _ openRange) = openRange"
| "sampleStartRange (arrayVal _ _ openRange) = openRange"
| "sampleStartRange (stringVal _ srcRange) = srcRange"
| "sampleStartRange (numberVal _ _ srcRange) = srcRange"
| "sampleStartRange (booleanVal _ srcRange) = srcRange"
| "sampleStartRange (nullVal srcRange) = srcRange"

definition samplePkg :: "node \<Rightarrow> Diagnostics \<Rightarrow> json_pkg" where
  "samplePkg n ds =
    \<lparr>parseFileContent = (\<lambda>src filename start. (n, ds)),
     parseExpression = (\<lambda>src filename start. (n, ds)),
     StartRange = sampleStartRange\<rparr>"

definition sampleEnv ::
  "go_error + os_File \<Rightarrow> byte list \<times> go_error option \<Rightarrow> go_error option \<Rightarrow> os_env" where
  "sampleEnv opened readAll closed =
    \<lparr>os_Open = (\<lambda>filename. opened),
     io_ReadAll = (\<lambda>f. readAll),
     Close = (\<lambda>f. closed),
     fmt_q = (\<lambda>s. [CHR 0x22] @ s @ [CHR 0x22])\<rparr>"

definition sampleRange :: "int \<Rightarrow> int \<Rightarrow> Range" where
  "sampleRange b e =
    \<lparr>Filename = ''a.json'',
     Start = \<lparr>Byte = b, Line = 1, Column = b + 1\<rparr>,
     End = \<lparr>Byte = e, Line = 1, Column = e + 1\<rparr>\<rparr>"

section \<open>Properties\<close>

subsection \<open>The two branches of the root check\<close>

lemma ParseWithStartPos_default:
  assumes "parseFileContent pkg src filename start = (rootNode, pdiags)"
    and "\<not> isObjectOrArray rootNode"
  shows "ParseWithStartPos pkg src filename start =
    (Some \<lparr>Body = body (objectVal []
              \<lparr>Filename = filename, Start = \<lparr>Byte = 0, Line = 1, Column = 1\<rparr>,
               End = \<lparr>Byte = 0, Line = 1, Column = 1\<rparr>\<rparr>
              \<lparr>Filename = filename, Start = \<lparr>Byte = 0, Line = 1, Column = 1\<rparr>,
               End = \<lparr>Byte = 0, Line = 1, Column = 1\<rparr>\<rparr>),
           Bytes = src,
           Nav = navigation (objectVal []
              \<lparr>Filename = filename, Start = \<lparr>Byte = 0, Line = 1, Column = 1\<rparr>,
               End = \<lparr>Byte = 0, Line = 1, Column = 1\<rparr>\<rparr>
              \<lparr>Filename = filename, Start = \<lparr>Byte = 0, Line = 1, Column = 1\<rparr>,
               End = \<lparr>Byte = 0, Line = 1, Column = 1\<rparr>\<rparr>)\<rparr>,
     pdiags @ [\<lparr>Severity = DiagError,
               Summary = ''Root value must be object'',
               Detail = ''The root value in a JSON-based configuration must be either a JSON object or a JSON array of objects.'',
               Subject = Some (StartRange pkg rootNode),
               Context = None\<rparr>])"
  using assms by (simp add: ParseWithStartPos_def Let_def)

lemma ParseWithStartPos_okay:
  assumes "parseFileContent pkg src filename start = (rootNode, pdiags)"
    and "isObjectOrArray rootNode"
  shows "ParseWithStartPos pkg src filename start =
    (Some \<lparr>Body = body rootNode, Bytes = src, Nav = navigation rootNode\<rparr>, pdiags)"
  using assms by (simp add: ParseWithStartPos_def Let_def)

lemma ParseWithStartPos_not_nil:
  "fst (ParseWithStartPos pkg src filename start) \<noteq> None"
  by (simp add: ParseWithStartPos_def Let_def split: prod.split)

lemma samplePkg_simps:
  "parseFileContent (samplePkg n ds) src filename start = (n, ds)"
  "parseExpression (samplePkg n ds) src filename start = (n, ds)"
  "StartRange (samplePkg n ds) = sampleStartRange"
  by (simp_all add: samplePkg_def)

lemma sampleEnv_simps:
  "os_Open (sampleEnv opened readAll closed) filename = opened"
  "io_ReadAll (sampleEnv opened readAll closed) f = readAll"
  "Close (sampleEnv opened readAll closed) f = closed"
  "fmt_q (sampleEnv opened readAll closed) s = [CHR 0x22] @ s @ [CHR 0x22]"
  by (simp_all add: sampleEnv_def)

subsection \<open>The root constraint\<close>

text \<open>
  C1: when the root node that parsing the file content produces is neither an object nor
  an array, \<^verbatim>\<open>ParseWithStartPos\<close> returns the parse diagnostics followed by exactly one
  more diagnostic, an error with the summary "Root value must be object", and the body of
  the returned file wraps an object with no attributes whose source range has equal
  start and end. So whatever a content extraction \<open>content\<close> computes from a body, on
  the returned body it computes what it computes on that empty object.
\<close>

theorem ParseWithStartPos_root_must_be_object:
  assumes "parseFileContent pkg src filename start = (rootNode, pdiags)"
    and "\<not> isObjectOrArray rootNode"
  shows "\<exists>file d r.
      ParseWithStartPos pkg src filename start = (Some file, pdiags @ [d])
    \<and> Severity d = DiagError
    \<and> Summary d = ''Root value must be object''
    \<and> Body file = body (objectVal [] r r)
    \<and> Start r = End r
    \<and> content (Body file) = content (body (objectVal [] r r))"
  unfolding ParseWithStartPos_default [OF assms] by simp

theorem ParseWithStartPos_root_must_be_object_witness:
  "parseFileContent (samplePkg (stringVal ''hello'' (sampleRange 0 7)) [])
      [0x22, 0x68, 0x65, 0x6C, 0x6C, 0x6F, 0x22] ''a.json'' \<lparr>Byte = 0, Line = 1, Column = 1\<rparr>
     = (stringVal ''hello'' (sampleRange 0 7), [])
   \<and> \<not> isObjectOrArray (stringVal ''hello'' (sampleRange 0 7))
   \<and> (\<exists>file d r.
        ParseWithStartPos (samplePkg (stringVal ''hello'' (sampleRange 0 7)) [])
          [0x22, 0x68, 0x65, 0x6C, 0x6C, 0x6F, 0x22] ''a.json'' \<lparr>Byte = 0, Line = 1, Column = 1\<rparr>
          = (Some file, [] @ [d])
      \<and> Severity d = DiagError
      \<and> Summary d = ''Root value must be object''
      \<and> Body file = body (objectVal [] r r)
      \<and> Start r = End r
      \<and> body_val (Body file) = body_val (body (objectVal [] r r)))"
proof -
  let ?n = "stringVal ''hello'' (sampleRange 0 7)"
  have parsed: "parseFileContent (samplePkg ?n [])
      [0x22, 0x68, 0x65, 0x6C, 0x6C, 0x6F, 0x22] ''a.json'' \<lparr>Byte = 0, Line = 1, Column = 1\<rparr>
     = (?n, [])"
    by (simp add: samplePkg_simps)
  have shape: "\<not> isObjectOrArray ?n"
    by simp
  from ParseWithStartPos_root_must_be_object [OF parsed shape, of body_val] parsed shape
  show ?thesis by blast
qed

text \<open>
  C2: when the root node that parsing the file content produces is an object or an
  array, \<^verbatim>\<open>ParseWithStartPos\<close> returns exactly the diagnostics of parsing, and a file
  whose body wraps that root node unchanged.
\<close>

theorem ParseWithStartPos_root_object_or_array:
  assumes "parseFileContent pkg src filename start = (rootNode, pdiags)"
    and "isObjectOrArray rootNode"
  shows "snd (ParseWithStartPos pkg src filename start) = pdiags
    \<and> map_option Body (fst (ParseWithStartPos pkg src filename start)) = Some (body rootNode)"
  unfolding ParseWithStartPos_okay [OF assms] by simp

theorem ParseWithStartPos_root_object_or_array_witness:
  "parseFileContent
      (samplePkg (arrayVal [objectVal [] (sampleRange 1 3) (sampleRange 1 2)]
                    (sampleRange 0 4) (sampleRange 0 1)) [])
      [0x5B, 0x7B, 0x7D, 0x5D] ''a.json'' \<lparr>Byte = 0, Line = 1, Column = 1\<rparr>
     = (arrayVal [objectVal [] (sampleRange 1 3) (sampleRange 1 2)]
          (sampleRange 0 4) (sampleRange 0 1), [])
   \<and> isObjectOrArray (arrayVal [objectVal [] (sampleRange 1 3) (sampleRange 1 2)]
        (sampleRange 0 4) (sampleRange 0 1))
   \<and> snd (ParseWithStartPos
        (samplePkg (arrayVal [objectVal [] (sampleRange 1 3) (sampleRange 1 2)]
                      (sampleRange 0 4) (sampleRange 0 1)) [])
        [0x5B, 0x7B, 0x7D, 0x5D] ''a.json'' \<lparr>Byte = 0, Line = 1, Column = 1\<rparr>) = []
   \<and> map_option Body (fst (ParseWithStartPos
        (samplePkg (arrayVal [objectVal [] (sampleRange 1 3) (sampleRange 1 2)]
                      (sampleRange 0 4) (sampleRange 0 1)) [])
        [0x5B, 0x7B, 0x7D, 0x5D] ''a.json'' \<lparr>Byte = 0, Line = 1, Column = 1\<rparr>))
      = Some (body (arrayVal [objectVal [] (sampleRange 1 3) (sampleRange 1 2)]
                (sampleRange 0 4) (sampleRange 0 1)))"
proof -
  let ?n = "arrayVal [objectVal [] (sampleRange 1 3) (sampleRange 1 2)]
              (sampleRange 0 4) (sampleRange 0 1)"
  have parsed: "parseFileContent (samplePkg ?n [])
      [0x5B, 0x7B, 0x7D, 0x5D] ''a.json'' \<lparr>Byte = 0, Line = 1, Column = 1\<rparr> = (?n, [])"
    by (simp add: samplePkg_simps)
  have shape: "isObjectOrArray ?n"
    by simp
  from ParseWithStartPos_root_object_or_array [OF parsed shape] parsed shape
  show ?thesis by blast
qed

text \<open>
  C3: for every buffer, file name and start position, \<^verbatim>\<open>ParseWithStartPos\<close> returns a
  file that is not nil. Its \<^verbatim>\<open>Bytes\<close> are the input buffer, its \<^verbatim>\<open>Nav\<close> wraps the root
  node of the file, which is the node its body wraps: the parsed root when that is an
  object or an array, the empty placeholder otherwise. The diagnostics returned are the
  complete list: all the diagnostics of parsing, in their order, followed by nothing
  when the parsed root is an object or an array and by the one root error otherwise.
\<close>

theorem ParseWithStartPos_file_structure:
  "\<exists>file.
      ParseWithStartPos pkg src filename start =
        (Some file,
         snd (parseFileContent pkg src filename start) @
           (if isObjectOrArray (fst (parseFileContent pkg src filename start)) then []
            else [\<lparr>Severity = DiagError,
                   Summary = ''Root value must be object'',
                   Detail = ''The root value in a JSON-based configuration must be either a JSON object or a JSON array of objects.'',
                   Subject = Some (StartRange pkg (fst (parseFileContent pkg src filename start))),
                   Context = None\<rparr>]))
    \<and> Bytes file = src
    \<and> Nav file = navigation (body_val (Body file))
    \<and> body_val (Body file) =
        (if isObjectOrArray (fst (parseFileContent pkg src filename start))
         then fst (parseFileContent pkg src filename start)
         else objectVal []
           \<lparr>Filename = filename, Start = \<lparr>Byte = 0, Line = 1, Column = 1\<rparr>,
            End = \<lparr>Byte = 0, Line = 1, Column = 1\<rparr>\<rparr>
           \<lparr>Filename = filename, Start = \<lparr>Byte = 0, Line = 1, Column = 1\<rparr>,
            End = \<lparr>Byte = 0, Line = 1, Column = 1\<rparr>\<rparr>)"
proof (cases "parseFileContent pkg src filename start")
  case (Pair rootNode pdiags)
  show ?thesis
  proof (cases "isObjectOrArray rootNode")
    case True
    show ?thesis
      unfolding ParseWithStartPos_okay [OF Pair True] using Pair True by simp
  next
    case False
    show ?thesis
      unfolding ParseWithStartPos_default [OF Pair False] using Pair False by simp
  qed
qed

text \<open>
  C8: when the root constraint fails, the source range and the opening range of the
  placeholder object are both the range from byte 0, line 1, column 1 to that same
  position in the given file name, whatever start position the caller passed.
\<close>

theorem ParseWithStartPos_placeholder_range:
  assumes "parseFileContent pkg src filename start = (rootNode, pdiags)"
    and "\<not> isObjectOrArray rootNode"
  shows "map_option (body_val \<circ> Body) (fst (ParseWithStartPos pkg src filename start)) =
    Some (objectVal []
      \<lparr>Filename = filename, Start = \<lparr>Byte = 0, Line = 1, Column = 1\<rparr>,
       End = \<lparr>Byte = 0, Line = 1, Column = 1\<rparr>\<rparr>
      \<lparr>Filename = filename, Start = \<lparr>Byte = 0, Line = 1, Column = 1\<rparr>,
       End = \<lparr>Byte = 0, Line = 1, Column = 1\<rparr>\<rparr>)"
  unfolding ParseWithStartPos_default [OF assms] by simp

theorem ParseWithStartPos_placeholder_range_witness:
  "parseFileContent (samplePkg (numberVal 42 0 (sampleRange 120 122)) [])
      [0x34, 0x32] ''a.json'' \<lparr>Byte = 120, Line = 1, Column = 121\<rparr>
     = (numberVal 42 0 (sampleRange 120 122), [])
   \<and> \<not> isObjectOrArray (numberVal 42 0 (sampleRange 120 122))
   \<and> map_option (body_val \<circ> Body)
        (fst (ParseWithStartPos (samplePkg (numberVal 42 0 (sampleRange 120 122)) [])
          [0x34, 0x32] ''a.json'' \<lparr>Byte = 120, Line = 1, Column = 121\<rparr>)) =
      Some (objectVal []
        \<lparr>Filename = ''a.json'', Start = \<lparr>Byte = 0, Line = 1, Column = 1\<rparr>,
         End = \<lparr>Byte = 0, Line = 1, Column = 1\<rparr>\<rparr>
        \<lparr>Filename = ''a.json'', Start = \<lparr>Byte = 0, Line = 1, Column = 1\<rparr>,
         End = \<lparr>Byte = 0, Line = 1, Column = 1\<rparr>\<rparr>)"
proof -
  let ?n = "numberVal 42 0 (sampleRange 120 122)"
  have parsed: "parseFileContent (samplePkg ?n [])
      [0x34, 0x32] ''a.json'' \<lparr>Byte = 120, Line = 1, Column = 121\<rparr> = (?n, [])"
    by (simp add: samplePkg_simps)
  have shape: "\<not> isObjectOrArray ?n"
    by simp
  from ParseWithStartPos_placeholder_range [OF parsed shape] parsed shape
  show ?thesis by blast
qed

text \<open>
  C9: when the root constraint fails, the subject of the "Root value must be object"
  diagnostic, the last diagnostic returned, is the start range of the root node that
  parsing produced, a range of the parsed document, and not the range of the placeholder.
\<close>

theorem ParseWithStartPos_root_error_subject:
  assumes "parseFileContent pkg src filename start = (rootNode, pdiags)"
    and "\<not> isObjectOrArray rootNode"
  shows "snd (ParseWithStartPos pkg src filename start) =
    pdiags @ [\<lparr>Severity = DiagError,
               Summary = ''Root value must be object'',
               Detail = ''The root value in a JSON-based configuration must be either a JSON object or a JSON array of objects.'',
               Subject = Some (StartRange pkg rootNode),
               Context = None\<rparr>]"
  unfolding ParseWithStartPos_default [OF assms] by simp

theorem ParseWithStartPos_root_error_subject_witness:
  "parseFileContent (samplePkg (booleanVal True (sampleRange 3 7)) [])
      [0x20, 0x20, 0x20, 0x74, 0x72, 0x75, 0x65] ''a.json'' \<lparr>Byte = 0, Line = 1, Column = 1\<rparr>
     = (booleanVal True (sampleRange 3 7), [])
   \<and> \<not> isObjectOrArray (booleanVal True (sampleRange 3 7))
   \<and> map Subject (snd (ParseWithStartPos (samplePkg (booleanVal True (sampleRange 3 7)) [])
        [0x20, 0x20, 0x20, 0x74, 0x72, 0x75, 0x65] ''a.json'' \<lparr>Byte = 0, Line = 1, Column = 1\<rparr>))
      = [Some \<lparr>Filename = ''a.json'', Start = \<lparr>Byte = 3, Line = 1, Column = 4\<rparr>,
               End = \<lparr>Byte = 7, Line = 1, Column = 8\<rparr>\<rparr>]"
proof -
  let ?n = "booleanVal True (sampleRange 3 7)"
  have parsed: "parseFileContent (samplePkg ?n [])
      [0x20, 0x20, 0x20, 0x74, 0x72, 0x75, 0x65] ''a.json'' \<lparr>Byte = 0, Line = 1, Column = 1\<rparr>
     = (?n, [])"
    by (simp add: samplePkg_simps)
  have shape: "\<not> isObjectOrArray ?n"
    by simp
  from ParseWithStartPos_root_error_subject [OF parsed shape] parsed shape
  show ?thesis by (simp add: samplePkg_simps sampleRange_def)
qed

subsection \<open>The entry points at the default start position\<close>

text \<open>
  C4: \<^verbatim>\<open>Parse\<close> returns what \<^verbatim>\<open>ParseWithStartPos\<close> returns at the position with byte
  offset 0, line 1, column 1, and \<^verbatim>\<open>ParseExpression\<close> returns what
  \<^verbatim>\<open>ParseExpressionWithStartPos\<close> returns at that same position.
\<close>

theorem Parse_is_ParseWithStartPos_at_origin:
  "Parse pkg src filename =
     ParseWithStartPos pkg src filename \<lparr>Byte = 0, Line = 1, Column = 1\<rparr>
   \<and> ParseExpression pkg src filename =
     ParseExpressionWithStartPos pkg src filename \<lparr>Byte = 0, Line = 1, Column = 1\<rparr>"
  by (simp add: Parse_def ParseExpression_def)

subsection \<open>Loading a file\<close>

text \<open>
  C5: when opening the file fails, \<^verbatim>\<open>ParseFile\<close> returns the nil file and exactly one
  diagnostic, an error whose subject and context ranges are both nil. No parsing takes
  place: the result is the same for every parser \<open>pkg'\<close>.
\<close>

theorem ParseFile_open_failure:
  assumes "os_Open env filename = Inl err"
  shows "ParseFile env pkg filename =
      (None, [\<lparr>Severity = DiagError,
               Summary = ''Failed to open file'',
               Detail = ''The file '' @ fmt_q env filename @ '' could not be opened.'',
               Subject = None,
               Context = None\<rparr>])
    \<and> ParseFile env pkg' filename = ParseFile env pkg filename"
  using assms by (simp add: ParseFile_def)

theorem ParseFile_open_failure_witness:
  "os_Open (sampleEnv (Inl ''no such file or directory'') ([], None) None) ''a.json''
     = Inl ''no such file or directory''
   \<and> ParseFile (sampleEnv (Inl ''no such file or directory'') ([], None) None)
        (samplePkg (objectVal [] (sampleRange 0 2) (sampleRange 0 1)) []) ''a.json'' =
      (None, [\<lparr>Severity = DiagError,
               Summary = ''Failed to open file'',
               Detail = ''The file '' @ [CHR 0x22] @ ''a.json'' @ [CHR 0x22] @ '' could not be opened.'',
               Subject = None,
               Context = None\<rparr>])
   \<and> ParseFile (sampleEnv (Inl ''no such file or directory'') ([], None) None)
        (samplePkg (nullVal (sampleRange 0 4)) []) ''a.json'' =
      ParseFile (sampleEnv (Inl ''no such file or directory'') ([], None) None)
        (samplePkg (objectVal [] (sampleRange 0 2) (sampleRange 0 1)) []) ''a.json''"
proof -
  let ?env = "sampleEnv (Inl ''no such file or directory'') ([], None) None"
  have opened: "os_Open ?env ''a.json'' = Inl ''no such file or directory''"
    by (simp add: sampleEnv_simps)
  from ParseFile_open_failure [OF opened,
      of "samplePkg (objectVal [] (sampleRange 0 2) (sampleRange 0 1)) []"
         "samplePkg (nullVal (sampleRange 0 4)) []"] opened
  show ?thesis by (simp add: sampleEnv_simps)
qed

text \<open>
  C6: when the file opens and reading it fails, \<^verbatim>\<open>ParseFile\<close> returns the nil file and
  the error "Failed to read file" (followed by the warning of the deferred close when
  closing fails too), and no parsing takes place: the result is the same for every
  parser \<open>pkg'\<close>. And \<^verbatim>\<open>ParseFile\<close> returns the nil file only when opening fails or
  reading fails.
\<close>

theorem ParseFile_read_failure:
  "(os_Open env filename = Inr f \<longrightarrow> io_ReadAll env f = (bs, Some err) \<longrightarrow>
      ParseFile env pkg filename =
        (None,
         \<lparr>Severity = DiagError,
          Summary = ''Failed to read file'',
          Detail = ''The file '' @ fmt_q env filename @ '' was opened, but an error occured while reading it.'',
          Subject = None,
          Context = None\<rparr>
         # (case Close env f of
              None \<Rightarrow> []
            | Some e \<Rightarrow>
              [\<lparr>Severity = DiagWarning,
                Summary = ''Failed to close file'',
                Detail = ''The file '' @ fmt_q env filename @ '' was opened, but an error occured while closing it.'',
                Subject = None,
                Context = None\<rparr>]))
      \<and> ParseFile env pkg' filename = ParseFile env pkg filename)
   \<and> (fst (ParseFile env pkg filename) = None \<longleftrightarrow>
        (case os_Open env filename of
           Inl e \<Rightarrow> True
         | Inr h \<Rightarrow> snd (io_ReadAll env h) \<noteq> None))"
proof (intro conjI impI)
  assume "os_Open env filename = Inr f" and "io_ReadAll env f = (bs, Some err)"
  then show "ParseFile env pkg filename =
        (None,
         \<lparr>Severity = DiagError,
          Summary = ''Failed to read file'',
          Detail = ''The file '' @ fmt_q env filename @ '' was opened, but an error occured while reading it.'',
          Subject = None,
          Context = None\<rparr>
         # (case Close env f of
              None \<Rightarrow> []
            | Some e \<Rightarrow>
              [\<lparr>Severity = DiagWarning,
                Summary = ''Failed to close file'',
                Detail = ''The file '' @ fmt_q env filename @ '' was opened, but an error occured while closing it.'',
                Subject = None,
                Context = None\<rparr>]))"
    by (simp add: ParseFile_def deferredClose_def split: option.split)
next
  assume "os_Open env filename = Inr f" and "io_ReadAll env f = (bs, Some err)"
  then show "ParseFile env pkg' filename = ParseFile env pkg filename"
    by (simp add: ParseFile_def)
next
  show "fst (ParseFile env pkg filename) = None \<longleftrightarrow>
        (case os_Open env filename of
           Inl e \<Rightarrow> True
         | Inr h \<Rightarrow> snd (io_ReadAll env h) \<noteq> None)"
  proof (cases "os_Open env filename")
    case (Inl e)
    then show ?thesis by (simp add: ParseFile_def)
  next
    case (Inr h)
    obtain bs' r where rd: "io_ReadAll env h = (bs', r)"
      by (cases "io_ReadAll env h")
    have closed: "fst (deferredClose env h filename res) = fst res" for res
      by (simp add: deferredClose_def split: prod.split option.split)
    show ?thesis
    proof (cases r)
      case None
      with Inr rd closed show ?thesis
        by (simp add: ParseFile_def Parse_def ParseWithStartPos_not_nil)
    next
      case (Some e)
      with Inr rd closed show ?thesis
        by (simp add: ParseFile_def)
    qed
  qed
qed

theorem ParseFile_read_failure_witness:
  "os_Open (sampleEnv (Inr 3) ([0x7B], Some ''input/output error'') None) ''a.json'' = Inr 3
   \<and> io_ReadAll (sampleEnv (Inr 3) ([0x7B], Some ''input/output error'') None) 3
       = ([0x7B], Some ''input/output error'')
   \<and> ParseFile (sampleEnv (Inr 3) ([0x7B], Some ''input/output error'') None)
        (samplePkg (objectVal [] (sampleRange 0 1) (sampleRange 0 1)) []) ''a.json'' =
      (None, [\<lparr>Severity = DiagError,
               Summary = ''Failed to read file'',
               Detail = ''The file '' @ [CHR 0x22] @ ''a.json'' @ [CHR 0x22] @ '' was opened, but an error occured while reading it.'',
               Subject = None,
               Context = None\<rparr>])
   \<and> ParseFile (sampleEnv (Inr 3) ([0x7B], Some ''input/output error'') None)
        (samplePkg (nullVal (sampleRange 0 4)) []) ''a.json'' =
      ParseFile (sampleEnv (Inr 3) ([0x7B], Some ''input/output error'') None)
        (samplePkg (objectVal [] (sampleRange 0 1) (sampleRange 0 1)) []) ''a.json''
   \<and> fst (ParseFile (sampleEnv (Inr 3) ([0x7B], Some ''input/output error'') None)
        (samplePkg (objectVal [] (sampleRange 0 1) (sampleRange 0 1)) []) ''a.json'') = None"
proof -
  let ?env = "sampleEnv (Inr 3) ([0x7B], Some ''input/output error'') None"
  have opened: "os_Open ?env ''a.json'' = Inr 3"
    by (simp add: sampleEnv_simps)
  have readAll: "io_ReadAll ?env 3 = ([0x7B], Some ''input/output error'')"
    by (simp add: sampleEnv_simps)
  from ParseFile_read_failure [of ?env "''a.json''" 3 "[0x7B]" "''input/output error''"
      "samplePkg (objectVal [] (sampleRange 0 1) (sampleRange 0 1)) []"
      "samplePkg (nullVal (sampleRange 0 4)) []"] opened readAll
  show ?thesis by (simp add: sampleEnv_simps)
qed

text \<open>
  C7: when the file opens and is read and closing it fails, \<^verbatim>\<open>ParseFile\<close> returns the
  file that \<^verbatim>\<open>Parse\<close> produces from the bytes read, and the diagnostics of \<^verbatim>\<open>Parse\<close>
  followed by one diagnostic of warning severity with the summary "Failed to close file".
\<close>

theorem ParseFile_close_failure:
  assumes "os_Open env filename = Inr f"
    and "io_ReadAll env f = (bs, None)"
    and "Close env f = Some err"
  shows "ParseFile env pkg filename =
    (fst (Parse pkg bs filename),
     snd (Parse pkg bs filename) @
       [\<lparr>Severity = DiagWarning,
         Summary = ''Failed to close file'',
         Detail = ''The file '' @ fmt_q env filename @ '' was opened, but an error occured while closing it.'',
         Subject = None,
         Context = None\<rparr>])"
  using assms by (simp add: ParseFile_def deferredClose_def split: prod.split)

theorem ParseFile_close_failure_witness:
  "os_Open (sampleEnv (Inr 3) ([0x7B, 0x7D], None) (Some ''bad file descriptor'')) ''a.json'' = Inr 3
   \<and> io_ReadAll (sampleEnv (Inr 3) ([0x7B, 0x7D], None) (Some ''bad file descriptor'')) 3
       = ([0x7B, 0x7D], None)
   \<and> Close (sampleEnv (Inr 3) ([0x7B, 0x7D], None) (Some ''bad file descriptor'')) 3
       = Some ''bad file descriptor''
   \<and> ParseFile (sampleEnv (Inr 3) ([0x7B, 0x7D], None) (Some ''bad file descriptor''))
        (samplePkg (objectVal [] (sampleRange 0 2) (sampleRange 0 1)) []) ''a.json'' =
      (Some \<lparr>Body = body (objectVal [] (sampleRange 0 2) (sampleRange 0 1)),
             Bytes = [0x7B, 0x7D],
             Nav = navigation (objectVal [] (sampleRange 0 2) (sampleRange 0 1))\<rparr>,
       [\<lparr>Severity = DiagWarning,
         Summary = ''Failed to close file'',
         Detail = ''The file '' @ [CHR 0x22] @ ''a.json'' @ [CHR 0x22] @ '' was opened, but an error occured while closing it.'',
         Subject = None,
         Context = None\<rparr>])"
proof -
  let ?env = "sampleEnv (Inr 3) ([0x7B, 0x7D], None) (Some ''bad file descriptor'')"
  let ?pkg = "samplePkg (objectVal [] (sampleRange 0 2) (sampleRange 0 1)) []"
  have opened: "os_Open ?env ''a.json'' = Inr 3"
    by (simp add: sampleEnv_simps)
  have readAll: "io_ReadAll ?env 3 = ([0x7B, 0x7D], None)"
    by (simp add: sampleEnv_simps)
  have closed: "Close ?env 3 = Some ''bad file descriptor''"
    by (simp add: sampleEnv_simps)
  have parse: "Parse ?pkg [0x7B, 0x7D] ''a.json'' =
      (Some \<lparr>Body = body (objectVal [] (sampleRange 0 2) (sampleRange 0 1)),
             Bytes = [0x7B, 0x7D],
             Nav = navigation (objectVal [] (sampleRange 0 2) (sampleRange 0 1))\<rparr>, [])"
    by (simp add: Parse_def ParseWithStartPos_def samplePkg_simps)
  from ParseFile_close_failure [OF opened readAll closed, of ?pkg] opened readAll closed parse
  show ?thesis by (simp add: sampleEnv_simps)
qed

text \<open>
  C10: when the file opens, reading it fails and closing it fails too, \<^verbatim>\<open>ParseFile\<close>
  returns the nil file with both diagnostics: the error "Failed to read file", then the
  warning "Failed to close file" that the deferred function appends.
\<close>

theorem ParseFile_read_and_close_failure:
  assumes "os_Open env filename = Inr f"
    and "io_ReadAll env f = (bs, Some err)"
    and "Close env f = Some err'"
  shows "ParseFile env pkg filename =
    (None,
     [\<lparr>Severity = DiagError,
       Summary = ''Failed to read file'',
       Detail = ''The file '' @ fmt_q env filename @ '' was opened, but an error occured while reading it.'',
       Subject = None,
       Context = None\<rparr>,
      \<lparr>Severity = DiagWarning,
       Summary = ''Failed to close file'',
       Detail = ''The file '' @ fmt_q env filename @ '' was opened, but an error occured while closing it.'',
       Subject = None,
       Context = None\<rparr>])"
  using assms by (simp add: ParseFile_def deferredClose_def)

theorem ParseFile_read_and_close_failure_witness:
  "os_Open (sampleEnv (Inr 3) ([], Some ''input/output error'') (Some ''bad file descriptor''))
      ''a.json'' = Inr 3
   \<and> io_ReadAll (sampleEnv (Inr 3) ([], Some ''input/output error'') (Some ''bad file descriptor'')) 3
       = ([], Some ''input/output error'')
   \<and> Close (sampleEnv (Inr 3) ([], Some ''input/output error'') (Some ''bad file descriptor'')) 3
       = Some ''bad file descriptor''
   \<and> map Summary (snd (ParseFile
        (sampleEnv (Inr 3) ([], Some ''input/output error'') (Some ''bad file descriptor''))
        (samplePkg (nullVal (sampleRange 0 4)) []) ''a.json''))
       = [''Failed to read file'', ''Failed to close file'']
   \<and> fst (ParseFile
        (sampleEnv (Inr 3) ([], Some ''input/output error'') (Some ''bad file descriptor''))
        (samplePkg (nullVal (sampleRange 0 4)) []) ''a.json'') = None"
proof -
  let ?env = "sampleEnv (Inr 3) ([], Some ''input/output error'') (Some ''bad file descriptor'')"
  have opened: "os_Open ?env ''a.json'' = Inr 3"
    by (simp add: sampleEnv_simps)
  have readAll: "io_ReadAll ?env 3 = ([], Some ''input/output error'')"
    by (simp add: sampleEnv_simps)
  have closed: "Close ?env 3 = Some ''bad file descriptor''"
    by (simp add: sampleEnv_simps)
  from ParseFile_read_and_close_failure [OF opened readAll closed,
      of "samplePkg (nullVal (sampleRange 0 4)) []"] opened readAll closed
  show ?thesis by simp
qed

end
